theory Spec2Isabelle
  imports Complex_Main "HOL-Library.Char_ord" "HOL-Library.List_Lexorder"
    "HOL-Library.Product_Lexorder"
begin

section \<open>Numbers: float64 values with exact arithmetic on the finite ones\<close>

text \<open>
  The programs under study are written against pandas and numpy. A numeric cell is a
  float64; the embedding keeps the four kinds of value a float64 can hold (finite,
  the two infinities, NaN) and computes on the finite ones with exact real arithmetic:
  rounding, overflow and the sign of zero are not represented. NaN is the marker pandas
  uses for a missing entry.
\<close>

datatype fl = Fin real | PInf | NInf | NaN

fun isna :: "fl \<Rightarrow> bool" where
  "isna NaN = True"
| "isna _ = False"

fun fneg :: "fl \<Rightarrow> fl" where
  "fneg (Fin a) = Fin (- a)"
| "fneg PInf = NInf"
| "fneg NInf = PInf"
| "fneg NaN = NaN"

fun fadd :: "fl \<Rightarrow> fl \<Rightarrow> fl" where
  "fadd NaN _ = NaN"
| "fadd _ NaN = NaN"
| "fadd (Fin a) (Fin b) = Fin (a + b)"
| "fadd PInf NInf = NaN"
| "fadd NInf PInf = NaN"
| "fadd PInf _ = PInf"
| "fadd NInf _ = NInf"
| "fadd _ PInf = PInf"
| "fadd _ NInf = NInf"

definition fsub :: "fl \<Rightarrow> fl \<Rightarrow> fl" where
  "fsub a b = fadd a (fneg b)"

text \<open>The sign of a non-NaN value, as an integer: used by the product and the quotient.\<close>

fun fsgn :: "fl \<Rightarrow> int" where
  "fsgn (Fin a) = (if a < 0 then - 1 else if a = 0 then 0 else 1)"
| "fsgn PInf = 1"
| "fsgn NInf = - 1"
| "fsgn NaN = 0"

definition of_sign :: "int \<Rightarrow> fl" where
  "of_sign s = (if s < 0 then NInf else if s = 0 then NaN else PInf)"

fun fmul :: "fl \<Rightarrow> fl \<Rightarrow> fl" where
  "fmul NaN _ = NaN"
| "fmul _ NaN = NaN"
| "fmul (Fin a) (Fin b) = Fin (a * b)"
| "fmul x y = of_sign (fsgn x * fsgn y)"

fun fdiv :: "fl \<Rightarrow> fl \<Rightarrow> fl" where
  "fdiv NaN _ = NaN"
| "fdiv _ NaN = NaN"
| "fdiv (Fin a) (Fin b) = (if b = 0 then of_sign (fsgn (Fin a)) else Fin (a / b))"
| "fdiv (Fin a) _ = Fin 0"
| "fdiv x (Fin b) = (if b < 0 then fneg x else x)"
| "fdiv _ _ = NaN"

text \<open>
  The position of a value on the extended real line, as a pair compared
  lexicographically: it orders the non-NaN values for sorting and comparison.
\<close>

fun fl_key :: "fl \<Rightarrow> int \<times> real" where
  "fl_key NInf = (- 1, 0)"
| "fl_key (Fin a) = (0, a)"
| "fl_key PInf = (1, 0)"
| "fl_key NaN = (2, 0)"

text \<open>Comparisons: every comparison with NaN is false.\<close>

definition flt :: "fl \<Rightarrow> fl \<Rightarrow> bool" where
  "flt a b = (\<not> isna a \<and> \<not> isna b \<and> fl_key a < fl_key b)"

definition fgt :: "fl \<Rightarrow> fl \<Rightarrow> bool" where
  "fgt a b = flt b a"

section \<open>Datasets\<close>

text \<open>
  A DataFrame is an ordered list of named columns. A column carries its dtype in its
  constructor: \<open>Numeric\<close> (int64 or float64), \<open>Boolean\<close>, \<open>Object\<close> (strings, with
  \<open>None\<close> for a missing entry) and \<open>Categorical\<close> (the category labels, the
  \<open>ordered\<close> flag and the entries, \<open>None\<close> for an entry outside the categories).
\<close>

datatype column =
    Numeric "fl list"
  | Boolean "bool list"
  | Object "string option list"
  | Categorical "string list" bool "string option list"

type_synonym dataset = "(string \<times> column) list"

datatype error = KeyError string | TypeError

fun col_len :: "column \<Rightarrow> nat" where
  "col_len (Numeric vs) = length vs"
| "col_len (Boolean bs) = length bs"
| "col_len (Object ss) = length ss"
| "col_len (Categorical cats ord ss) = length ss"

text \<open>
  The number of rows, and the invariant of a DataFrame: column names are distinct (the
  programs address columns by name) and all columns have the same number of rows.
\<close>

definition nrows :: "dataset \<Rightarrow> nat" where
  "nrows df = (case df of [] \<Rightarrow> 0 | (name, c) # rest \<Rightarrow> col_len c)"

definition wf_dataset :: "dataset \<Rightarrow> bool" where
  "wf_dataset df = (distinct (map fst df) \<and> list_all (\<lambda>(name, c). col_len c = nrows df) df)"

text \<open>The dtype of a column, and the schema of a frame: its column names with their dtypes.\<close>

datatype dtype = Float64 | Bool | ObjectT | Category "string list" bool

fun dtype_of :: "column \<Rightarrow> dtype" where
  "dtype_of (Numeric vs) = Float64"
| "dtype_of (Boolean bs) = Bool"
| "dtype_of (Object ss) = ObjectT"
| "dtype_of (Categorical cats ord ss) = Category cats ord"

definition schema :: "dataset \<Rightarrow> (string \<times> dtype) list" where
  "schema df = map (\<lambda>(name, c). (name, dtype_of c)) df"

text \<open>\<open>df[col]\<close>: the column of that name, or KeyError.\<close>

definition get_col :: "dataset \<Rightarrow> string \<Rightarrow> error + column" where
  "get_col df name = (case map_of df name of None \<Rightarrow> Inl (KeyError name) | Some c \<Rightarrow> Inr c)"

text \<open>\<open>df[col] = c\<close> for a column that exists: the column is replaced where it stands.\<close>

definition set_col :: "dataset \<Rightarrow> string \<Rightarrow> column \<Rightarrow> dataset" where
  "set_col df name c = map (\<lambda>(n, old). if n = name then (n, c) else (n, old)) df"

text \<open>\<open>df[mask]\<close>: the rows at which the boolean mask is true, in every column.\<close>

definition keep :: "bool list \<Rightarrow> 'a list \<Rightarrow> 'a list" where
  "keep msk xs = map snd (filter fst (zip msk xs))"

fun filter_col :: "bool list \<Rightarrow> column \<Rightarrow> column" where
  "filter_col msk (Numeric vs) = Numeric (keep msk vs)"
| "filter_col msk (Boolean bs) = Boolean (keep msk bs)"
| "filter_col msk (Object ss) = Object (keep msk ss)"
| "filter_col msk (Categorical cats ord ss) = Categorical cats ord (keep msk ss)"

definition select_rows :: "bool list \<Rightarrow> dataset \<Rightarrow> dataset" where
  "select_rows msk df = map (\<lambda>(name, c). (name, filter_col msk c)) df"

text \<open>The rows of a dataset (the entries of row \<open>i\<close> across the columns), for stating what a row filter keeps.\<close>

datatype cell = CNum fl | CBool bool | CStr "string option"

fun cells :: "column \<Rightarrow> cell list" where
  "cells (Numeric vs) = map CNum vs"
| "cells (Boolean bs) = map CBool bs"
| "cells (Object ss) = map CStr ss"
| "cells (Categorical cats ord ss) = map CStr ss"

fun rows_of :: "dataset \<Rightarrow> nat \<Rightarrow> cell list list" where
  "rows_of [] n = replicate n []"
| "rows_of ((name, c) # df) n = map2 (#) (cells c) (rows_of df n)"

definition rows :: "dataset \<Rightarrow> cell list list" where
  "rows df = rows_of df (nrows df)"

section \<open>Outlier removal (data_processing.py, OutlierHandler.remove_outliers)\<close>

text \<open>
  \<open>Series.quantile(q)\<close> with the default linear interpolation: missing entries are
  skipped, the rest is sorted, and the value at the virtual index \<open>(n - 1) * q\<close> is
  interpolated between its two neighbours as numpy does (\<open>a + (b - a) * t\<close>, computed
  from \<open>b\<close> when \<open>t \<ge> 1/2\<close>). With nothing left the result is NaN.
\<close>

definition fsort :: "fl list \<Rightarrow> fl list" where
  "fsort vs = sort_key fl_key vs"

definition lerp :: "fl \<Rightarrow> fl \<Rightarrow> real \<Rightarrow> fl" where
  "lerp a b t =
     (let d = fsub b a
      in if t \<ge> 1 / 2 then fsub b (fmul d (Fin (1 - t))) else fadd a (fmul d (Fin t)))"

definition quantile :: "fl list \<Rightarrow> real \<Rightarrow> fl" where
  "quantile vs q =
     (let s = fsort (filter (\<lambda>v. \<not> isna v) vs); n = length s
      in if n = 0 then NaN
         else let pos = real (n - 1) * q;
                  lo = (if pos \<ge> real (n - 1) then n - 1 else nat \<lfloor>pos\<rfloor>);
                  hi = (if pos \<ge> real (n - 1) then n - 1 else nat \<lfloor>pos\<rfloor> + 1)
              in lerp (s ! lo) (s ! hi) (pos - real_of_int \<lfloor>pos\<rfloor>))"

text \<open>
  The test of one entry: \<open>~((x < Q1 - 1.5 * IQR) | (x > Q3 + 1.5 * IQR))\<close>.
\<close>

definition is_outlier :: "fl \<Rightarrow> fl \<Rightarrow> fl \<Rightarrow> bool" where
  "is_outlier Q1 Q3 x =
     (let IQR = fsub Q3 Q1
      in flt x (fsub Q1 (fmul (Fin (3 / 2)) IQR)) \<or> fgt x (fadd Q3 (fmul (Fin (3 / 2)) IQR)))"

text \<open>
  The loop over \<open>columns\<close>. A name that is not a column raises KeyError; a column that
  is not numeric has no quantile (TypeError). The input frame is not modified: each
  round builds a new frame from the rows kept.
\<close>

fun remove_outliers :: "dataset \<Rightarrow> string list \<Rightarrow> error + dataset" where
  "remove_outliers df [] = Inr df"
| "remove_outliers df (col # columns) =
     (case get_col df col of
        Inl e \<Rightarrow> Inl e
      | Inr (Numeric vs) \<Rightarrow>
          (let Q1 = quantile vs (1 / 4); Q3 = quantile vs (3 / 4)
           in remove_outliers (select_rows (map (\<lambda>x. \<not> is_outlier Q1 Q3 x) vs) df) columns)
      | Inr _ \<Rightarrow> Inl TypeError)"

section \<open>Skew correction (data_processing.py, DataSkewTransformer.fix_skew)\<close>

text \<open>\<open>df.select_dtypes(include=['number']).columns\<close>: the names of the numeric columns.\<close>

fun is_number :: "column \<Rightarrow> bool" where
  "is_number (Numeric vs) = True"
| "is_number _ = False"

definition numeric_cols :: "dataset \<Rightarrow> string list" where
  "numeric_cols df = map fst (filter (\<lambda>(name, c). is_number c) df)"

definition fsum :: "fl list \<Rightarrow> fl" where
  "fsum vs = foldr fadd vs (Fin 0)"

fun fabs :: "fl \<Rightarrow> fl" where
  "fabs (Fin a) = Fin \<bar>a\<bar>"
| "fabs PInf = PInf"
| "fabs NInf = PInf"
| "fabs NaN = NaN"

text \<open>\<open>x ** 1.5\<close> on a float64.\<close>

fun fpow15 :: "fl \<Rightarrow> fl" where
  "fpow15 (Fin a) = (if a < 0 then NaN else Fin (a powr (3 / 2)))"
| "fpow15 PInf = PInf"
| "fpow15 NInf = PInf"
| "fpow15 NaN = NaN"

text \<open>pandas treats a moment below \<open>1e-14\<close> in absolute value as zero.\<close>

definition zero_out_fperr :: "fl \<Rightarrow> fl" where
  "zero_out_fperr x = (if flt (fabs x) (Fin (1 / 10 ^ 14)) then Fin 0 else x)"

text \<open>
  \<open>Series.skew()\<close> (pandas \<open>nanskew\<close>): missing entries are skipped; with \<open>count\<close>
  entries left, mean \<open>m\<close>, \<open>m2 = \<Sum>(x - m)\<^sup>2\<close> and \<open>m3 = \<Sum>(x - m)\<^sup>3\<close>, the result is
  \<open>count * sqrt (count - 1) / (count - 2) * (m3 / m2 ** 1.5)\<close>, replaced by 0 when
  \<open>m2 = 0\<close> and by NaN when fewer than three entries are left.
\<close>

definition skew :: "fl list \<Rightarrow> fl" where
  "skew vs =
     (let count = length (filter (\<lambda>v. \<not> isna v) vs);
          values = map (\<lambda>v. if isna v then Fin 0 else v) vs;
          mean = fdiv (fsum values) (Fin (real count));
          adjusted = map (\<lambda>v. if isna v then Fin 0 else fsub v mean) vs;
          adjusted2 = map (\<lambda>a. fmul a a) adjusted;
          adjusted3 = map (\<lambda>a. fmul (fmul a a) a) adjusted;
          m2 = zero_out_fperr (fsum adjusted2);
          m3 = zero_out_fperr (fsum adjusted3)
      in if count < 3 then NaN
         else if m2 = Fin 0 then Fin 0
         else fmul (Fin (real count * sqrt (real count - 1) / (real count - 2)))
                   (fdiv m3 (fpow15 m2)))"

text \<open>
  \<open>np.log1p\<close>: \<open>log(1 + x)\<close>; at \<open>x = -1\<close> the result is \<open>-inf\<close>, below \<open>-1\<close> it is
  NaN, and no error is raised.
\<close>

fun log1p :: "fl \<Rightarrow> fl" where
  "log1p (Fin x) = (if - 1 < x then Fin (ln (1 + x)) else if x = - 1 then NInf else NaN)"
| "log1p PInf = PInf"
| "log1p NInf = NaN"
| "log1p NaN = NaN"

text \<open>
  The loop \<open>for col in numeric_cols\<close>, on the frame it updates in place. Every name
  of the loop is a numeric column of the frame, so the last case is never taken on a
  frame with distinct column names.
\<close>

fun fix_skew_loop :: "dataset \<Rightarrow> fl \<Rightarrow> string list \<Rightarrow> dataset" where
  "fix_skew_loop df threshold [] = df"
| "fix_skew_loop df threshold (col # cols) =
     (case get_col df col of
        Inr (Numeric vs) \<Rightarrow>
          (let skewness = skew vs
           in if fgt (fabs skewness) threshold
              then fix_skew_loop (set_col df col (Numeric (map log1p vs))) threshold cols
              else fix_skew_loop df threshold cols)
      | _ \<Rightarrow> fix_skew_loop df threshold cols)"

definition fix_skew :: "dataset \<Rightarrow> fl \<Rightarrow> dataset" where
  "fix_skew df threshold = fix_skew_loop df threshold (numeric_cols df)"

section \<open>Type conversion (data_transform.py, DataTransform.convert_columns)\<close>

definition month_categories :: "string list" where
  "month_categories =
     [''Jan'', ''Feb'', ''Mar'', ''Apr'', ''May'', ''Jun'',
      ''Jul'', ''Aug'', ''Sep'', ''Oct'', ''Nov'', ''Dec'']"

text \<open>
  \<open>pd.Categorical(values, categories=cats, ordered=True)\<close>: an entry that is one of
  the categories is kept; every other entry (another string, a number, a boolean, a
  missing entry) becomes missing. Nothing is raised.
\<close>

definition recode :: "string list \<Rightarrow> string option \<Rightarrow> string option" where
  "recode cats s = (case s of None \<Rightarrow> None | Some x \<Rightarrow> if x \<in> set cats then Some x else None)"

fun to_categorical :: "string list \<Rightarrow> column \<Rightarrow> column" where
  "to_categorical cats (Object ss) = Categorical cats True (map (recode cats) ss)"
| "to_categorical cats (Categorical old ord ss) = Categorical cats True (map (recode cats) ss)"
| "to_categorical cats (Numeric vs) = Categorical cats True (map (\<lambda>v. None) vs)"
| "to_categorical cats (Boolean bs) = Categorical cats True (map (\<lambda>b. None) bs)"

text \<open>
  \<open>Series.astype(bool)\<close>: the truth value of each entry. A number is true unless it is
  zero (NaN is true), a string is true unless it is empty, a missing entry of a string
  column is the float NaN, hence true.
\<close>

fun astype_bool :: "column \<Rightarrow> column" where
  "astype_bool (Numeric vs) = Boolean (map (\<lambda>v. v \<noteq> Fin 0) vs)"
| "astype_bool (Boolean bs) = Boolean bs"
| "astype_bool (Object ss) = Boolean (map (\<lambda>s. case s of None \<Rightarrow> True | Some x \<Rightarrow> x \<noteq> []) ss)"
| "astype_bool (Categorical cats ord ss) =
     Boolean (map (\<lambda>s. case s of None \<Rightarrow> True | Some x \<Rightarrow> x \<noteq> []) ss)"

text \<open>
  The three assignments update the frame in place, one after the other. The result is
  the frame as the call leaves it, and the exception raised, if any: a missing column
  raises KeyError and leaves the assignments made before it.
\<close>

definition convert_columns :: "dataset \<Rightarrow> dataset \<times> error option" where
  "convert_columns df =
     (case get_col df ''month'' of
        Inl e \<Rightarrow> (df, Some e)
      | Inr m \<Rightarrow>
          (let df1 = set_col df ''month'' (to_categorical month_categories m)
           in case get_col df1 ''weekend'' of
                Inl e \<Rightarrow> (df1, Some e)
              | Inr w \<Rightarrow>
                  (let df2 = set_col df1 ''weekend'' (astype_bool w)
                   in case get_col df2 ''revenue'' of
                        Inl e \<Rightarrow> (df2, Some e)
                      | Inr r \<Rightarrow> (set_col df2 ''revenue'' (astype_bool r), None))))"

section \<open>Imputation (data_transform.py, DataFrameTransform.impute_missing)\<close>

text \<open>\<open>Series.median()\<close> and \<open>Series.mean()\<close>: over the entries that are not missing; NaN when there is none.\<close>

definition median :: "fl list \<Rightarrow> fl" where
  "median vs =
     (let s = fsort (filter (\<lambda>v. \<not> isna v) vs); n = length s
      in if n = 0 then NaN
         else if odd n then s ! (n div 2)
         else fdiv (fadd (s ! (n div 2 - 1)) (s ! (n div 2))) (Fin 2))"

definition mean :: "fl list \<Rightarrow> fl" where
  "mean vs =
     (let present = filter (\<lambda>v. \<not> isna v) vs; count = length present
      in if count > 0 then fdiv (fsum present) (Fin (real count)) else NaN)"

text \<open>\<open>Series.fillna(value)\<close>: every missing entry becomes \<open>value\<close>.\<close>

definition fillna :: "fl \<Rightarrow> fl list \<Rightarrow> fl list" where
  "fillna v vs = map (\<lambda>x. if isna x then v else x) vs"

text \<open>
  The loop over the numeric columns. \<open>df[col].fillna(..., inplace=True)\<close> writes
  through to the frame (pandas before 3.0, without copy-on-write). A strategy that is
  neither \<open>median\<close> nor \<open>mean\<close> matches no branch: the column is left as it is, and
  nothing is raised.
\<close>

fun impute_loop :: "dataset \<Rightarrow> string \<Rightarrow> string list \<Rightarrow> dataset" where
  "impute_loop df strategy [] = df"
| "impute_loop df strategy (col # cols) =
     (case get_col df col of
        Inr (Numeric vs) \<Rightarrow>
          (if strategy = ''median''
           then impute_loop (set_col df col (Numeric (fillna (median vs) vs))) strategy cols
           else if strategy = ''mean''
           then impute_loop (set_col df col (Numeric (fillna (mean vs) vs))) strategy cols
           else impute_loop df strategy cols)
      | _ \<Rightarrow> impute_loop df strategy cols)"

definition impute_missing :: "dataset \<Rightarrow> string \<Rightarrow> error + dataset" where
  "impute_missing df strategy = Inr (impute_loop df strategy (numeric_cols df))"

section \<open>Aggregates (analysis.py, BusinessAnalysis)\<close>

text \<open>
  \<open>df.groupby(key)\<close>: rows whose key is missing are dropped; the groups come in
  ascending key order. For a categorical key the groups are the categories, in their
  order: all of them with \<open>observed=False\<close> (also the default before pandas 3.0), only
  those that occur with \<open>observed=True\<close>. For every other dtype the groups are the
  keys that occur.
\<close>

datatype key = KBool bool | KNum fl | KStr string

fun row_keys :: "column \<Rightarrow> key option list" where
  "row_keys (Numeric vs) = map (\<lambda>v. if isna v then None else Some (KNum v)) vs"
| "row_keys (Boolean bs) = map (\<lambda>b. Some (KBool b)) bs"
| "row_keys (Object ss) = map (map_option KStr) ss"
| "row_keys (Categorical cats ord ss) = map (map_option KStr) ss"

fun group_keys :: "bool \<Rightarrow> column \<Rightarrow> key list" where
  "group_keys observed (Numeric vs) = map KNum (remdups (fsort (filter (\<lambda>v. \<not> isna v) vs)))"
| "group_keys observed (Boolean bs) = map KBool (filter (\<lambda>b. b \<in> set bs) [False, True])"
| "group_keys observed (Object ss) = map KStr (sort (remdups (List.map_filter (\<lambda>s. s) ss)))"
| "group_keys observed (Categorical cats ord ss) =
     map KStr (if observed then filter (\<lambda>c. Some c \<in> set ss) cats else cats)"

text \<open>
  The column that is aggregated, as numbers: a boolean counts as 1 or 0. pandas has no
  mean of a string or categorical column and no sum of a categorical one (TypeError);
  the sum of a string column, a concatenation, is not a number and is reported here as
  TypeError as well.
\<close>

fun numeric_view :: "column \<Rightarrow> error + fl list" where
  "numeric_view (Numeric vs) = Inr vs"
| "numeric_view (Boolean bs) = Inr (map (\<lambda>b. Fin (if b then 1 else 0)) bs)"
| "numeric_view _ = Inl TypeError"

definition group_values :: "key \<Rightarrow> key option list \<Rightarrow> fl list \<Rightarrow> fl list" where
  "group_values k ks vals = map snd (filter (\<lambda>(k', v). k' = Some k) (zip ks vals))"

definition groupby_agg :: "bool \<Rightarrow> column \<Rightarrow> fl list \<Rightarrow> (fl list \<Rightarrow> fl) \<Rightarrow> (key \<times> fl) list" where
  "groupby_agg observed kc vals agg =
     map (\<lambda>k. (k, agg (group_values k (row_keys kc) vals))) (group_keys observed kc)"





text \<open>
  The two queries return a new Series; the frame is read, never assigned to. The result
  pairs the frame after the call with the Series or the exception.
\<close>

definition grouped :: "dataset \<Rightarrow> string \<Rightarrow> string \<Rightarrow> bool \<Rightarrow> (fl list \<Rightarrow> fl) \<Rightarrow> error + (key \<times> fl) list" where
  "grouped df by col observed agg =
     (case get_col df by of
        Inl e \<Rightarrow> Inl e
      | Inr kc \<Rightarrow>
          (case get_col df col of
             Inl e \<Rightarrow> Inl e
           | Inr vc \<Rightarrow>
               (case numeric_view vc of
                  Inl e \<Rightarrow> Inl e
                | Inr vals \<Rightarrow> Inr (groupby_agg observed kc vals agg))))"

definition weekend_sales_analysis :: "dataset \<Rightarrow> dataset \<times> (error + (key \<times> fl) list)" where
  "weekend_sales_analysis df = (df, grouped df ''weekend'' ''revenue'' False mean)"


section \<open>Example frames and notions used in the statements\<close>

text \<open>
  The synthetic column of the outlier example, what is left of it without its
  outlier, and a column on which a second pass of the filter removes one more row.
\<close>

definition synthetic_column :: dataset where
  "synthetic_column = [(''a'', Numeric (map Fin [1, 2, 3, 4, 5, 100]))]"

definition synthetic_trimmed :: dataset where
  "synthetic_trimmed = [(''a'', Numeric (map Fin [1, 2, 3, 4, 5]))]"

definition shrinking_column :: dataset where
  "shrinking_column = [(''a'', Numeric (map Fin [0, 0, 0, 1, 3]))]"


text \<open>A raw frame whose month column holds a label outside the twelve months.\<close>

definition raw_sessions :: dataset where
  "raw_sessions =
     [(''month'', Object [Some ''Feb'', Some ''Foo'', None]),
      (''bounce_rates'', Numeric [NaN, Fin 1, Fin 2]),
      (''weekend'', Numeric [Fin 0, Fin 1, NaN]),
      (''revenue'', Object [Some ''False'', Some [], None])]"

text \<open>
  What becomes of one entry of the month column: a label of the category set stays,
  anything else is missing.
\<close>

definition recode_cell :: "string list \<Rightarrow> cell \<Rightarrow> string option" where
  "recode_cell cats x =
     (case x of CStr (Some s) \<Rightarrow> if s \<in> set cats then Some s else None | _ \<Rightarrow> None)"

text \<open>A frame with missing entries: one numeric column partly missing, one entirely, and a string column.\<close>

definition gappy_sessions :: dataset where
  "gappy_sessions =
     [(''administrative'', Numeric [Fin 1, NaN, Fin 4, Fin 10]),
      (''informational'', Numeric [NaN, NaN, NaN, NaN]),
      (''browser'', Object [None, Some ''Safari'', None, None])]"

text \<open>What the imputation makes of one column, given the statistic: only a numeric column changes.\<close>

definition impute_col :: "(fl list \<Rightarrow> fl) \<Rightarrow> column \<Rightarrow> column" where
  "impute_col stat c = (case c of Numeric vs \<Rightarrow> Numeric (fillna (stat vs) vs) | _ \<Rightarrow> c)"

text \<open>The two columns of the skew examples: nine ones and a hundred, and one to five.\<close>

definition skewed_column :: dataset where
  "skewed_column = [(''x'', Numeric (map Fin [1, 1, 1, 1, 1, 1, 1, 1, 1, 100]))]"

definition symmetric_column :: dataset where
  "symmetric_column = [(''x'', Numeric (map Fin [1, 2, 3, 4, 5]))]"

text \<open>A frame with a skewed numeric column, a symmetric one, a boolean and a string column.\<close>

definition mixed_sessions :: dataset where
  "mixed_sessions =
     [(''product_related'', Numeric (map Fin [1, 1, 1, 1, 1, 1, 1, 1, 1, 100])),
      (''weekend'', Boolean [True, False, False, False, False, True, True, False, False, False]),
      (''exit_rates'', Numeric (map Fin [1, 2, 3, 4, 5, 5, 4, 3, 2, 1])),
      (''browser'', Object [None, None, None, None, None, None, None, None, None, Some ''Safari''])]"

text \<open>What the skew correction makes of one column, given the threshold: only a numeric column whose skewness is beyond the threshold changes.\<close>

definition unskew_col :: "fl \<Rightarrow> column \<Rightarrow> column" where
  "unskew_col threshold c =
     (case c of
        Numeric vs \<Rightarrow> if fgt (fabs (skew vs)) threshold then Numeric (map log1p vs) else c
      | _ \<Rightarrow> c)"




section \<open>Properties of the row filter\<close>

lemma keep_Nil [simp]: "keep [] xs = []" "keep m [] = []"
  by (simp_all add: keep_def)

lemma keep_Cons [simp]: "keep (b # m) (x # xs) = (if b then x # keep m xs else keep m xs)"
  by (simp add: keep_def)

lemma length_keep: "length xs = length m \<Longrightarrow> length (keep m xs) = length (filter (\<lambda>b. b) m)"
  by (induction m xs rule: list_induct2') simp_all

lemma keep_map: "keep m (map f xs) = map f (keep m xs)"
  by (induction m xs rule: list_induct2') simp_all

lemma keep_map2: "keep m (map2 f xs ys) = map2 f (keep m xs) (keep m ys)"
proof (induction m arbitrary: xs ys)
  case Nil
  then show ?case by simp
next
  case (Cons b m)
  show ?case
    by (cases xs; cases ys) (simp_all add: Cons.IH)
qed

lemma keep_replicate:
  "length m = n \<Longrightarrow> keep m (replicate n x) = replicate (length (filter (\<lambda>b. b) m)) x"
  by (induction m arbitrary: n) auto

lemma keep_pred: "keep (map P vs) ys = map snd (filter (\<lambda>(x, r). P x) (zip vs ys))"
  by (induction vs ys rule: list_induct2') simp_all

lemma cells_filter_col: "cells (filter_col m c) = keep m (cells c)"
  by (cases c) (simp_all add: keep_map)

lemma col_len_filter_col:
  "col_len c = length m \<Longrightarrow> col_len (filter_col m c) = length (filter (\<lambda>b. b) m)"
  by (cases c) (simp_all add: length_keep)

lemma dtype_filter_col: "dtype_of (filter_col m c) = dtype_of c"
  by (cases c) simp_all

lemma schema_select_rows: "schema (select_rows m df) = schema df"
  by (induction df) (auto simp: select_rows_def schema_def dtype_filter_col)

lemma names_schema: "map fst (schema df) = map fst df"
  by (induction df) (auto simp: schema_def)

lemma get_col_mem: "get_col df col = Inr c \<Longrightarrow> (col, c) \<in> set df"
  by (auto simp: get_col_def split: option.splits dest: map_of_SomeD)

lemma wf_get_col: "wf_dataset df \<Longrightarrow> get_col df col = Inr c \<Longrightarrow> col_len c = nrows df"
  by (auto simp: wf_dataset_def list_all_iff dest!: get_col_mem)

lemma nrows_select_rows:
  assumes "wf_dataset df" "length m = nrows df"
  shows "nrows (select_rows m df) = length (filter (\<lambda>b. b) m)"
proof (cases df)
  case Nil
  with assms show ?thesis by (simp add: select_rows_def nrows_def)
next
  case (Cons p df')
  obtain name c where p: "p = (name, c)" by (cases p)
  with assms Cons show ?thesis
    by (simp add: select_rows_def nrows_def col_len_filter_col)
qed

lemma wf_select_rows:
  assumes "wf_dataset df" "length m = nrows df"
  shows "wf_dataset (select_rows m df)"
proof -
  have "distinct (map fst (select_rows m df))"
    using assms(1) names_schema [of "select_rows m df"] names_schema [of df]
    by (simp add: schema_select_rows wf_dataset_def)
  moreover have "list_all (\<lambda>(name, c). col_len c = nrows (select_rows m df)) (select_rows m df)"
    unfolding nrows_select_rows [OF assms]
    using assms
    by (auto simp: wf_dataset_def list_all_iff select_rows_def col_len_filter_col)
  ultimately show ?thesis by (simp add: wf_dataset_def)
qed

lemma rows_of_select_rows:
  "rows_of (select_rows m df) (length (filter (\<lambda>b. b) m)) = keep m (rows_of df (length m))"
proof (induction df)
  case Nil
  then show ?case by (simp add: select_rows_def keep_replicate)
next
  case (Cons p df)
  obtain name c where p: "p = (name, c)" by (cases p)
  from Cons.IH show ?case
    by (simp add: p select_rows_def cells_filter_col keep_map2)
qed

lemma rows_select_rows:
  assumes "wf_dataset df" "length m = nrows df"
  shows "rows (select_rows m df) = keep m (rows df)"
  using assms rows_of_select_rows [of m df] by (simp add: rows_def nrows_select_rows)

lemma get_col_iff:
  "distinct (map fst df) \<Longrightarrow> get_col df name = Inr c \<longleftrightarrow> (name, c) \<in> set df"
proof -
  assume "distinct (map fst df)"
  then have "map_of df name = Some c \<longleftrightarrow> (name, c) \<in> set df"
    by simp
  then show ?thesis
    by (cases "map_of df name") (auto simp: get_col_def)
qed

lemma distinct_numeric_cols: "distinct (map fst df) \<Longrightarrow> distinct (numeric_cols df)"
  unfolding numeric_cols_def by (rule distinct_map_filter)

lemma numeric_cols_iff:
  assumes "distinct (map fst df)"
  shows "name \<in> set (numeric_cols df) \<longleftrightarrow> (\<exists>vs. get_col df name = Inr (Numeric vs))"
proof
  assume "name \<in> set (numeric_cols df)"
  then obtain c where "(name, c) \<in> set df" "is_number c"
    by (auto simp: numeric_cols_def)
  then show "\<exists>vs. get_col df name = Inr (Numeric vs)"
    using assms by (cases c) (auto simp: get_col_iff)
next
  assume "\<exists>vs. get_col df name = Inr (Numeric vs)"
  then obtain vs where "(name, Numeric vs) \<in> set df"
    using assms by (auto simp: get_col_iff)
  then show "name \<in> set (numeric_cols df)"
    by (force simp: numeric_cols_def)
qed

lemma wf_distinct: "wf_dataset df \<Longrightarrow> distinct (map fst df)"
  by (simp add: wf_dataset_def)

lemma numeric_cols_schema:
  "numeric_cols df = map fst (filter (\<lambda>(name, t). t = Float64) (schema df))"
proof (induction df)
  case Nil
  then show ?case by (simp add: numeric_cols_def schema_def)
next
  case (Cons p df)
  obtain name c where p: "p = (name, c)" by (cases p)
  from Cons show ?case
    by (cases c) (simp_all add: p numeric_cols_def schema_def)
qed

lemma remove_outliers_shrinks:
  "wf_dataset df \<Longrightarrow> remove_outliers df columns = Inr df' \<Longrightarrow>
   wf_dataset df' \<and> nrows df' \<le> nrows df \<and> schema df' = schema df"
proof (induction columns arbitrary: df)
  case Nil
  then show ?case by auto
next
  case (Cons col columns)
  from Cons.prems(2) obtain vs where g: "get_col df col = Inr (Numeric vs)"
    by (auto split: sum.splits column.splits)
  define m where "m = map (\<lambda>x. \<not> is_outlier (quantile vs (1 / 4)) (quantile vs (3 / 4)) x) vs"
  have len: "length m = nrows df"
    using wf_get_col [OF Cons.prems(1) g] by (simp add: m_def)
  have wf1: "wf_dataset (select_rows m df)"
    using Cons.prems(1) len by (rule wf_select_rows)
  have run: "remove_outliers (select_rows m df) columns = Inr df'"
    using Cons.prems(2) g by (simp add: Let_def m_def)
  have "nrows (select_rows m df) \<le> nrows df"
    using nrows_select_rows [OF Cons.prems(1) len] len length_filter_le [of "\<lambda>b. b" m] by simp
  with Cons.IH [OF wf1 run] show ?case
    by (simp add: schema_select_rows)
qed

lemma remove_outliers_round:
  assumes wf: "wf_dataset df" and g: "get_col df col = Inr (Numeric vs)"
  defines "m \<equiv> map (\<lambda>x. \<not> is_outlier (quantile vs (1 / 4)) (quantile vs (3 / 4)) x) vs"
  shows "remove_outliers df (col # columns) = remove_outliers (select_rows m df) columns"
    and "wf_dataset (select_rows m df)"
    and "rows (select_rows m df) =
         map snd (filter (\<lambda>(x, r). \<not> is_outlier (quantile vs (1 / 4)) (quantile vs (3 / 4)) x)
                    (zip vs (rows df)))"
proof -
  have len: "length m = nrows df"
    using wf_get_col [OF wf g] by (simp add: m_def)
  show "remove_outliers df (col # columns) = remove_outliers (select_rows m df) columns"
    using g by (simp add: Let_def m_def)
  show "wf_dataset (select_rows m df)"
    using wf len by (rule wf_select_rows)
  show "rows (select_rows m df) =
         map snd (filter (\<lambda>(x, r). \<not> is_outlier (quantile vs (1 / 4)) (quantile vs (3 / 4)) x)
                    (zip vs (rows df)))"
    using rows_select_rows [OF wf len] by (simp add: m_def keep_pred)
qed

lemma remove_outliers_returns:
  "wf_dataset df \<Longrightarrow> set columns \<subseteq> set (numeric_cols df) \<Longrightarrow>
   \<exists>df'. remove_outliers df columns = Inr df'"
proof (induction columns arbitrary: df)
  case Nil
  then show ?case by simp
next
  case (Cons col columns)
  from Cons.prems obtain vs where g: "get_col df col = Inr (Numeric vs)"
    using numeric_cols_iff [OF wf_distinct, of df col] by auto
  let ?m = "map (\<lambda>x. \<not> is_outlier (quantile vs (1 / 4)) (quantile vs (3 / 4)) x) vs"
  note round = remove_outliers_round [OF Cons.prems(1) g]
  have "numeric_cols (select_rows ?m df) = numeric_cols df"
    by (simp add: numeric_cols_schema schema_select_rows)
  with Cons.prems(2) have "set columns \<subseteq> set (numeric_cols (select_rows ?m df))"
    by simp
  from Cons.IH [OF round(2) this] round(1) show ?case
    by simp
qed

text \<open>
  Claim C1. On a well-formed frame, \<open>remove_outliers\<close> with no column returns the frame
  as it is; with a numeric column \<open>col\<close> first in the list it continues, on the
  remaining columns in their order, with the frame made of exactly the rows whose entry
  \<open>x\<close> in \<open>col\<close> is neither strictly below \<open>Q1 - 1.5 * IQR\<close> nor strictly above
  \<open>Q3 + 1.5 * IQR\<close>, where \<open>Q1\<close> and \<open>Q3\<close> are the quartiles of \<open>col\<close> over the rows
  present at that point and \<open>IQR = Q3 - Q1\<close>; for every list of numeric columns of the
  frame it returns a frame, which has at most as many rows as the input and the same
  columns with the same dtypes.
\<close>

theorem remove_outliers_spec:
  assumes "wf_dataset df"
  shows "remove_outliers df [] = Inr df \<and>
    (\<forall>col vs columns. get_col df col = Inr (Numeric vs) \<longrightarrow>
       (\<exists>df1. remove_outliers df (col # columns) = remove_outliers df1 columns \<and>
          wf_dataset df1 \<and> schema df1 = schema df \<and>
          rows df1 =
            (let Q1 = quantile vs (1 / 4); Q3 = quantile vs (3 / 4); IQR = fsub Q3 Q1;
                 lower = fsub Q1 (fmul (Fin (3 / 2)) IQR);
                 upper = fadd Q3 (fmul (Fin (3 / 2)) IQR)
             in map snd (filter (\<lambda>(x, r). \<not> (flt x lower \<or> flt upper x)) (zip vs (rows df)))))) \<and>
    (\<forall>columns. set columns \<subseteq> set (numeric_cols df) \<longrightarrow>
       (\<exists>df'. remove_outliers df columns = Inr df' \<and>
          wf_dataset df' \<and> nrows df' \<le> nrows df \<and> schema df' = schema df))"
proof (intro conjI allI impI)
  show "remove_outliers df [] = Inr df" by simp
next
  fix col vs columns
  assume g: "get_col df col = Inr (Numeric vs)"
  let ?m = "map (\<lambda>x. \<not> is_outlier (quantile vs (1 / 4)) (quantile vs (3 / 4)) x) vs"
  from remove_outliers_round [OF assms g]
  show "\<exists>df1. remove_outliers df (col # columns) = remove_outliers df1 columns \<and>
          wf_dataset df1 \<and> schema df1 = schema df \<and>
          rows df1 =
            (let Q1 = quantile vs (1 / 4); Q3 = quantile vs (3 / 4); IQR = fsub Q3 Q1;
                 lower = fsub Q1 (fmul (Fin (3 / 2)) IQR);
                 upper = fadd Q3 (fmul (Fin (3 / 2)) IQR)
             in map snd (filter (\<lambda>(x, r). \<not> (flt x lower \<or> flt upper x)) (zip vs (rows df))))"
    by (intro exI [of _ "select_rows ?m df"])
       (simp add: schema_select_rows is_outlier_def fgt_def Let_def)
next
  fix columns
  assume "set columns \<subseteq> set (numeric_cols df)"
  with assms obtain df' where run: "remove_outliers df columns = Inr df'"
    using remove_outliers_returns by blast
  with assms have "wf_dataset df' \<and> nrows df' \<le> nrows df \<and> schema df' = schema df"
    by (rule remove_outliers_shrinks)
  with run show "\<exists>df'. remove_outliers df columns = Inr df' \<and>
          wf_dataset df' \<and> nrows df' \<le> nrows df \<and> schema df' = schema df"
    by blast
qed

lemmas outlier_eval =
  get_col_def quantile_def fsort_def lerp_def fsub_def is_outlier_def flt_def fgt_def
  select_rows_def keep_def Let_def

lemma synthetic_first_pass: "remove_outliers synthetic_column [''a''] = Inr synthetic_trimmed"
  by (simp add: synthetic_column_def synthetic_trimmed_def outlier_eval)

lemma synthetic_second_pass: "remove_outliers synthetic_trimmed [''a''] = Inr synthetic_trimmed"
  by (simp add: synthetic_trimmed_def outlier_eval)

lemma wf_synthetic: "wf_dataset synthetic_column"
  by (simp add: synthetic_column_def wf_dataset_def nrows_def)

theorem remove_outliers_spec_witness:
  "wf_dataset synthetic_column \<and>
   get_col synthetic_column ''a'' = Inr (Numeric (map Fin [1, 2, 3, 4, 5, 100])) \<and>
   set [''a''] \<subseteq> set (numeric_cols synthetic_column) \<and>
   remove_outliers synthetic_column [''a''] = Inr synthetic_trimmed \<and>
   (\<exists>df1. remove_outliers synthetic_column [''a''] = remove_outliers df1 [] \<and>
      rows df1 = [[CNum (Fin 1)], [CNum (Fin 2)], [CNum (Fin 3)], [CNum (Fin 4)], [CNum (Fin 5)]]) \<and>
   nrows synthetic_trimmed \<le> nrows synthetic_column \<and>
   schema synthetic_trimmed = schema synthetic_column"
proof -
  have g: "get_col synthetic_column ''a'' = Inr (Numeric (map Fin [1, 2, 3, 4, 5, 100]))"
    by (simp add: synthetic_column_def get_col_def)
  have r: "rows synthetic_column =
      [[CNum (Fin 1)], [CNum (Fin 2)], [CNum (Fin 3)], [CNum (Fin 4)], [CNum (Fin 5)], [CNum (Fin 100)]]"
    by (simp add: synthetic_column_def rows_def nrows_def)
  note spec = remove_outliers_spec [OF wf_synthetic]
  from spec g obtain df1 where
    "remove_outliers synthetic_column [''a''] = remove_outliers df1 []"
    "rows df1 =
       (let Q1 = quantile (map Fin [1, 2, 3, 4, 5, 100]) (1 / 4);
            Q3 = quantile (map Fin [1, 2, 3, 4, 5, 100]) (3 / 4); IQR = fsub Q3 Q1;
            lower = fsub Q1 (fmul (Fin (3 / 2)) IQR);
            upper = fadd Q3 (fmul (Fin (3 / 2)) IQR)
        in map snd (filter (\<lambda>(x, r). \<not> (flt x lower \<or> flt upper x))
             (zip (map Fin [1, 2, 3, 4, 5, 100]) (rows synthetic_column))))"
    by blast
  then have round: "\<exists>df1. remove_outliers synthetic_column [''a''] = remove_outliers df1 [] \<and>
      rows df1 = [[CNum (Fin 1)], [CNum (Fin 2)], [CNum (Fin 3)], [CNum (Fin 4)], [CNum (Fin 5)]]"
    by (intro exI [of _ df1]) (simp add: r quantile_def fsort_def lerp_def fsub_def flt_def)
  have "set [''a''] \<subseteq> set (numeric_cols synthetic_column)"
    by (simp add: synthetic_column_def numeric_cols_def)
  with spec obtain df' where "remove_outliers synthetic_column [''a''] = Inr df'"
    "nrows df' \<le> nrows synthetic_column" "schema df' = schema synthetic_column"
    by blast
  with synthetic_first_pass
  have "nrows synthetic_trimmed \<le> nrows synthetic_column \<and>
        schema synthetic_trimmed = schema synthetic_column"
    by simp
  with wf_synthetic g synthetic_first_pass round
    \<open>set [''a''] \<subseteq> set (numeric_cols synthetic_column)\<close>
  show ?thesis by (intro conjI) blast+
qed

text \<open>
  The filter is not idempotent in general: on the column \<open>[0, 0, 0, 1, 3]\<close> the first
  pass removes \<open>3\<close> (bounds \<open>[-1.5, 2.5]\<close>), and the second pass, with the quartiles
  of what is left (bounds \<open>[-0.375, 0.625]\<close>), removes \<open>1\<close>.
\<close>

theorem remove_outliers_not_idempotent:
  "remove_outliers shrinking_column [''a''] = Inr [(''a'', Numeric (map Fin [0, 0, 0, 1]))] \<and>
   remove_outliers [(''a'', Numeric (map Fin [0, 0, 0, 1]))] [''a''] =
     Inr [(''a'', Numeric (map Fin [0, 0, 0]))]"
  by (simp add: shrinking_column_def outlier_eval)

text \<open>
  Claim C8, amended. On a well-formed frame and a list of its numeric columns, both
  passes return a frame, and the second pass never adds rows (and the columns stay the
  same); on the single column \<open>[1, 2, 3, 4, 5, 100]\<close> the first pass
  removes exactly \<open>100\<close> and the second pass removes nothing.
\<close>

theorem remove_outliers_twice:
  "(wf_dataset df \<and> set columns \<subseteq> set (numeric_cols df) \<longrightarrow>
      (\<exists>df1 df2. remove_outliers df columns = Inr df1 \<and> remove_outliers df1 columns = Inr df2 \<and>
         nrows df2 \<le> nrows df1 \<and> nrows df1 \<le> nrows df \<and> schema df2 = schema df)) \<and>
   remove_outliers synthetic_column [''a''] = Inr synthetic_trimmed \<and>
   remove_outliers synthetic_trimmed [''a''] = Inr synthetic_trimmed"
proof (intro conjI impI)
  assume a: "wf_dataset df \<and> set columns \<subseteq> set (numeric_cols df)"
  then obtain df1 where r1: "remove_outliers df columns = Inr df1"
    using remove_outliers_returns by blast
  with a have one: "wf_dataset df1 \<and> nrows df1 \<le> nrows df \<and> schema df1 = schema df"
    using remove_outliers_shrinks by blast
  with a have "set columns \<subseteq> set (numeric_cols df1)"
    by (simp add: numeric_cols_schema)
  with one obtain df2 where r2: "remove_outliers df1 columns = Inr df2"
    using remove_outliers_returns by blast
  with one have two: "wf_dataset df2 \<and> nrows df2 \<le> nrows df1 \<and> schema df2 = schema df1"
    using remove_outliers_shrinks by blast
  from r1 r2 one two
  show "\<exists>df1 df2. remove_outliers df columns = Inr df1 \<and> remove_outliers df1 columns = Inr df2 \<and>
         nrows df2 \<le> nrows df1 \<and> nrows df1 \<le> nrows df \<and> schema df2 = schema df"
    by (intro exI [of _ df1] exI [of _ df2]) simp
qed (rule synthetic_first_pass synthetic_second_pass)+

theorem remove_outliers_twice_witness:
  "wf_dataset shrinking_column \<and> set [''a''] \<subseteq> set (numeric_cols shrinking_column) \<and>
   remove_outliers shrinking_column [''a''] = Inr [(''a'', Numeric (map Fin [0, 0, 0, 1]))] \<and>
   remove_outliers [(''a'', Numeric (map Fin [0, 0, 0, 1]))] [''a''] =
     Inr [(''a'', Numeric (map Fin [0, 0, 0]))] \<and>
   nrows [(''a'', Numeric (map Fin [0, 0, 0]))] \<le> nrows [(''a'', Numeric (map Fin [0, 0, 0, 1]))] \<and>
   nrows [(''a'', Numeric (map Fin [0, 0, 0, 1]))] \<le> nrows shrinking_column"
proof -
  have wf: "wf_dataset shrinking_column"
    by (simp add: shrinking_column_def wf_dataset_def nrows_def)
  have num: "set [''a''] \<subseteq> set (numeric_cols shrinking_column)"
    by (simp add: shrinking_column_def numeric_cols_def)
  have p1: "remove_outliers shrinking_column [''a''] = Inr [(''a'', Numeric (map Fin [0, 0, 0, 1]))]"
    by (simp add: shrinking_column_def outlier_eval)
  have p2: "remove_outliers [(''a'', Numeric (map Fin [0, 0, 0, 1]))] [''a''] =
     Inr [(''a'', Numeric (map Fin [0, 0, 0]))]"
    by (simp add: outlier_eval)
  from remove_outliers_twice [of shrinking_column "[''a'']"] wf num
  obtain df1 df2 where "remove_outliers shrinking_column [''a''] = Inr df1"
    "remove_outliers df1 [''a''] = Inr df2" "nrows df2 \<le> nrows df1"
    "nrows df1 \<le> nrows shrinking_column"
    by blast
  with p1 p2 have "nrows [(''a'', Numeric (map Fin [0, 0, 0]))] \<le>
      nrows [(''a'', Numeric (map Fin [0, 0, 0, 1]))]"
    "nrows [(''a'', Numeric (map Fin [0, 0, 0, 1]))] \<le> nrows shrinking_column"
    by auto
  with wf num p1 p2 show ?thesis by (intro conjI)
qed

section \<open>Properties of the type conversion\<close>

lemma length_cells [simp]: "length (cells c) = col_len c"
  by (cases c) simp_all

lemma get_set_col:
  "get_col (set_col df name c) name' =
     (if name' = name then (case get_col df name of Inl e \<Rightarrow> Inl e | Inr old \<Rightarrow> Inr c)
      else get_col df name')"
  by (induction df) (auto simp: get_col_def set_col_def)

lemma names_set_col: "map fst (set_col df name c) = map fst df"
  by (induction df) (auto simp: set_col_def)

lemma nrows_set_col: "col_len c = nrows df \<Longrightarrow> nrows (set_col df name c) = nrows df"
  by (cases df) (auto simp: set_col_def nrows_def)

lemma wf_set_col:
  assumes "wf_dataset df" "col_len c = nrows df"
  shows "wf_dataset (set_col df name c)"
  unfolding wf_dataset_def nrows_set_col [OF assms(2)] names_set_col
  using assms by (auto simp: wf_dataset_def list_all_iff set_col_def split: if_splits)

lemma col_len_to_categorical [simp]: "col_len (to_categorical cats c) = col_len c"
  by (cases c) simp_all

lemma col_len_astype_bool [simp]: "col_len (astype_bool c) = col_len c"
  by (cases c) simp_all


lemma to_categorical_cells:
  "to_categorical cats c = Categorical cats True (map (recode_cell cats) (cells c))"
proof -
  have "recode cats s = recode_cell cats (CStr s)" for s
    by (cases s) (simp_all add: recode_def recode_cell_def)
  then show ?thesis by (cases c) (simp_all add: recode_cell_def)
qed

lemma convert_columns_ok:
  assumes m: "get_col df ''month'' = Inr m"
    and w: "get_col df ''weekend'' = Inr w"
    and r: "get_col df ''revenue'' = Inr r"
  shows "convert_columns df =
    (set_col (set_col (set_col df ''month'' (to_categorical month_categories m))
        ''weekend'' (astype_bool w)) ''revenue'' (astype_bool r), None)"
  using assms by (simp add: convert_columns_def get_set_col Let_def)

lemma get_col_converted:
  "get_col (set_col (set_col (set_col df ''month'' cm) ''weekend'' cw) ''revenue'' cr) name =
     (if name = ''revenue'' then (case get_col df ''revenue'' of Inl e \<Rightarrow> Inl e | Inr old \<Rightarrow> Inr cr)
      else if name = ''weekend'' then (case get_col df ''weekend'' of Inl e \<Rightarrow> Inl e | Inr old \<Rightarrow> Inr cw)
      else if name = ''month'' then (case get_col df ''month'' of Inl e \<Rightarrow> Inl e | Inr old \<Rightarrow> Inr cm)
      else get_col df name)"
  by (simp add: get_set_col)


lemma raw_sessions_cols:
  "get_col raw_sessions ''month'' = Inr (Object [Some ''Feb'', Some ''Foo'', None])"
  "get_col raw_sessions ''weekend'' = Inr (Numeric [Fin 0, Fin 1, NaN])"
  "get_col raw_sessions ''revenue'' = Inr (Object [Some ''False'', Some [], None])"
  "get_col raw_sessions ''bounce_rates'' = Inr (Numeric [NaN, Fin 1, Fin 2])"
  by (simp_all add: raw_sessions_def get_col_def)



text \<open>
  A month label outside the twelve is accepted: the call on \<open>raw_sessions\<close>, whose
  second month is \<open>Foo\<close>, returns normally, with that entry missing.
\<close>

theorem convert_columns_accepts_unknown_month:
  "convert_columns raw_sessions =
     ([(''month'', Categorical month_categories True [Some ''Feb'', None, None]),
       (''bounce_rates'', Numeric [NaN, Fin 1, Fin 2]),
       (''weekend'', Boolean [False, True, True]),
       (''revenue'', Boolean [True, False, True])], None)"
  by (simp add: convert_columns_def raw_sessions_def get_col_def set_col_def recode_def
      month_categories_def)

lemma get_col_Inl: "get_col df name = Inl e \<Longrightarrow> e = KeyError name"
  by (simp add: get_col_def split: option.splits)

lemma convert_columns_errors:
  "snd (convert_columns df) \<in>
     {None, Some (KeyError ''month''), Some (KeyError ''weekend''), Some (KeyError ''revenue'')}"
  by (auto simp: convert_columns_def get_set_col get_col_def Let_def split: option.splits sum.splits)

lemma convert_columns_month:
  assumes m: "get_col df ''month'' = Inr m"
  shows "get_col (fst (convert_columns df)) ''month'' = Inr (to_categorical month_categories m)"
    and "snd (convert_columns df) \<noteq> Some (KeyError ''month'')"
  using m
  by (auto simp: convert_columns_def get_set_col Let_def split: sum.splits dest: get_col_Inl)

text \<open>
  Claim C5, amended. The only exceptions \<open>convert_columns\<close> raises are the KeyError of
  a missing \<open>month\<close>, \<open>weekend\<close> or \<open>revenue\<close> column; on a frame that has the three
  columns and a month label outside the twelve at row \<open>i\<close>, the call returns normally and
  row \<open>i\<close> of the converted month column is missing.
\<close>

theorem convert_columns_no_invalid_category:
  "snd (convert_columns df) \<in>
     {None, Some (KeyError ''month''), Some (KeyError ''weekend''), Some (KeyError ''revenue'')} \<and>
   (get_col df ''month'' = Inr m \<and> get_col df ''weekend'' = Inr w \<and>
    get_col df ''revenue'' = Inr r \<and>
    i < col_len m \<and> cells m ! i = CStr (Some s) \<and> s \<notin> set month_categories \<longrightarrow>
    (\<exists>df' labels. convert_columns df = (df', None) \<and>
       get_col df' ''month'' = Inr (Categorical month_categories True labels) \<and>
       length labels = col_len m \<and> labels ! i = None))"
proof (intro conjI impI)
  show "snd (convert_columns df) \<in>
     {None, Some (KeyError ''month''), Some (KeyError ''weekend''), Some (KeyError ''revenue'')}"
    by (rule convert_columns_errors)
next
  assume a: "get_col df ''month'' = Inr m \<and> get_col df ''weekend'' = Inr w \<and>
    get_col df ''revenue'' = Inr r \<and>
    i < col_len m \<and> cells m ! i = CStr (Some s) \<and> s \<notin> set month_categories"
  let ?labels = "map (recode_cell month_categories) (cells m)"
  let ?df' = "set_col (set_col (set_col df ''month'' (to_categorical month_categories m))
        ''weekend'' (astype_bool w)) ''revenue'' (astype_bool r)"
  have "convert_columns df = (?df', None)"
    using a by (simp add: convert_columns_ok)
  moreover have "get_col ?df' ''month'' = Inr (Categorical month_categories True ?labels)"
    using a by (simp add: get_col_converted to_categorical_cells)
  moreover have "?labels ! i = None"
    using a by (simp add: recode_cell_def)
  ultimately show "\<exists>df' labels. convert_columns df = (df', None) \<and>
       get_col df' ''month'' = Inr (Categorical month_categories True labels) \<and>
       length labels = col_len m \<and> labels ! i = None"
    by (intro exI [of _ ?df'] exI [of _ ?labels]) simp
qed

theorem convert_columns_no_invalid_category_witness:
  "get_col raw_sessions ''month'' = Inr (Object [Some ''Feb'', Some ''Foo'', None]) \<and>
   get_col raw_sessions ''weekend'' = Inr (Numeric [Fin 0, Fin 1, NaN]) \<and>
   get_col raw_sessions ''revenue'' = Inr (Object [Some ''False'', Some [], None]) \<and>
   (1::nat) < col_len (Object [Some ''Feb'', Some ''Foo'', None]) \<and>
   cells (Object [Some ''Feb'', Some ''Foo'', None]) ! 1 = CStr (Some ''Foo'') \<and>
   ''Foo'' \<notin> set month_categories \<and>
   (\<exists>df' labels. convert_columns raw_sessions = (df', None) \<and>
       get_col df' ''month'' = Inr (Categorical month_categories True labels) \<and>
       length labels = 3 \<and> labels ! 1 = None)"
proof -
  have h: "(1::nat) < col_len (Object [Some ''Feb'', Some ''Foo'', None])"
    "cells (Object [Some ''Feb'', Some ''Foo'', None]) ! 1 = CStr (Some ''Foo'')"
    "''Foo'' \<notin> set month_categories"
    by (simp_all add: month_categories_def)
  from convert_columns_no_invalid_category
    [of raw_sessions "Object [Some ''Feb'', Some ''Foo'', None]" "Numeric [Fin 0, Fin 1, NaN]"
        "Object [Some ''False'', Some [], None]" 1 "''Foo''"]
    raw_sessions_cols(1,2,3) h
  have "\<exists>df' labels. convert_columns raw_sessions = (df', None) \<and>
       get_col df' ''month'' = Inr (Categorical month_categories True labels) \<and>
       length labels = col_len (Object [Some ''Feb'', Some ''Foo'', None]) \<and> labels ! 1 = None"
    by blast
  then have "\<exists>df' labels. convert_columns raw_sessions = (df', None) \<and>
       get_col df' ''month'' = Inr (Categorical month_categories True labels) \<and>
       length labels = 3 \<and> labels ! 1 = None"
    by (simp add: numeral_3_eq_3)
  with raw_sessions_cols(1,2,3) h show ?thesis
    by (intro conjI)
qed

text \<open>
  Claim C10. On a frame with a \<open>month\<close> column, \<open>convert_columns\<close> raises nothing on
  account of the month values (the only exceptions left are the KeyError of a missing
  \<open>weekend\<close> or \<open>revenue\<close> column, and none when both are there); in the frame it
  leaves, \<open>month\<close> is the ordered categorical in which every label of the twelve is
  kept and every other entry is missing.
\<close>

theorem convert_columns_month_recode:
  assumes m: "get_col df ''month'' = Inr m"
  shows "snd (convert_columns df) \<in> {None, Some (KeyError ''weekend''), Some (KeyError ''revenue'')} \<and>
    (get_col df ''weekend'' = Inr w \<and> get_col df ''revenue'' = Inr r \<longrightarrow>
       snd (convert_columns df) = None) \<and>
    (\<exists>labels. get_col (fst (convert_columns df)) ''month'' =
         Inr (Categorical month_categories True labels) \<and>
       length labels = col_len m \<and>
       (\<forall>i<col_len m. labels ! i =
          (case cells m ! i of
             CStr (Some s) \<Rightarrow> if s \<in> set month_categories then Some s else None
           | _ \<Rightarrow> None)))"
proof (intro conjI impI)
  show "snd (convert_columns df) \<in> {None, Some (KeyError ''weekend''), Some (KeyError ''revenue'')}"
    using convert_columns_errors [of df] convert_columns_month(2) [OF m] by auto
next
  assume "get_col df ''weekend'' = Inr w \<and> get_col df ''revenue'' = Inr r"
  with m show "snd (convert_columns df) = None"
    by (simp add: convert_columns_ok)
next
  let ?labels = "map (recode_cell month_categories) (cells m)"
  have "get_col (fst (convert_columns df)) ''month'' = Inr (Categorical month_categories True ?labels)"
    using convert_columns_month(1) [OF m] by (simp add: to_categorical_cells)
  moreover have "\<forall>i<col_len m. ?labels ! i =
          (case cells m ! i of
             CStr (Some s) \<Rightarrow> if s \<in> set month_categories then Some s else None
           | _ \<Rightarrow> None)"
    by (simp add: recode_cell_def)
  ultimately show "\<exists>labels. get_col (fst (convert_columns df)) ''month'' =
         Inr (Categorical month_categories True labels) \<and>
       length labels = col_len m \<and>
       (\<forall>i<col_len m. labels ! i =
          (case cells m ! i of
             CStr (Some s) \<Rightarrow> if s \<in> set month_categories then Some s else None
           | _ \<Rightarrow> None))"
    by (intro exI [of _ ?labels]) simp
qed

theorem convert_columns_month_recode_witness:
  "get_col raw_sessions ''month'' = Inr (Object [Some ''Feb'', Some ''Foo'', None]) \<and>
   snd (convert_columns raw_sessions) = None \<and>
   (\<exists>labels. get_col (fst (convert_columns raw_sessions)) ''month'' =
       Inr (Categorical month_categories True labels) \<and>
     length labels = 3 \<and> labels ! 0 = Some ''Feb'' \<and> labels ! 1 = None \<and> labels ! 2 = None)"
proof -
  from convert_columns_month_recode [OF raw_sessions_cols(1),
      of "Numeric [Fin 0, Fin 1, NaN]" "Object [Some ''False'', Some [], None]"]
    raw_sessions_cols(2,3)
  obtain labels where none: "snd (convert_columns raw_sessions) = None"
    and l: "get_col (fst (convert_columns raw_sessions)) ''month'' =
         Inr (Categorical month_categories True labels)"
      "length labels = col_len (Object [Some ''Feb'', Some ''Foo'', None])"
      "\<forall>i<col_len (Object [Some ''Feb'', Some ''Foo'', None]). labels ! i =
          (case cells (Object [Some ''Feb'', Some ''Foo'', None]) ! i of
             CStr (Some s) \<Rightarrow> if s \<in> set month_categories then Some s else None
           | _ \<Rightarrow> None)"
    by blast
  from l(2) have len: "length labels = 3" by simp
  from l(3) have "labels ! 0 = Some ''Feb''" "labels ! 1 = None" "labels ! 2 = None"
    by (simp_all add: month_categories_def)
  with len l(1) have "\<exists>labels. get_col (fst (convert_columns raw_sessions)) ''month'' =
       Inr (Categorical month_categories True labels) \<and>
     length labels = 3 \<and> labels ! 0 = Some ''Feb'' \<and> labels ! 1 = None \<and> labels ! 2 = None"
    by (intro exI [of _ labels]) simp
  with none raw_sessions_cols(1) show ?thesis
    by (intro conjI)
qed

section \<open>Properties of the imputation\<close>

lemma length_fillna [simp]: "length (fillna v vs) = length vs"
  by (simp add: fillna_def)

lemma impute_loop_unknown:
  "strategy \<noteq> ''median'' \<Longrightarrow> strategy \<noteq> ''mean'' \<Longrightarrow> impute_loop df strategy cols = df"
  by (induction cols) (auto split: sum.splits column.splits)

lemma impute_col_simps [simp]:
  "impute_col stat (Numeric vs) = Numeric (fillna (stat vs) vs)"
  "impute_col stat (Boolean bs) = Boolean bs"
  "impute_col stat (Object ss) = Object ss"
  "impute_col stat (Categorical cats ord ss) = Categorical cats ord ss"
  by (simp_all add: impute_col_def)

lemma col_len_impute_col [simp]: "col_len (impute_col stat c) = col_len c"
  by (cases c) (simp_all add: impute_col_def)

lemma impute_loop_get:
  assumes ok: "strategy = ''median'' \<or> strategy = ''mean''"
  shows "distinct cols \<Longrightarrow>
    get_col (impute_loop df strategy cols) name =
      (if name \<in> set cols
       then map_sum (\<lambda>e. e) (impute_col (if strategy = ''median'' then median else mean))
              (get_col df name)
       else get_col df name)"
proof (induction cols arbitrary: df)
  case Nil
  then show ?case by simp
next
  case (Cons col cols)
  then have d: "col \<notin> set cols" "distinct cols" by simp_all
  let ?stat = "if strategy = ''median'' then median else mean"
  let ?next = "\<lambda>df. if name \<in> set cols then map_sum (\<lambda>e. e) (impute_col ?stat) (get_col df name)
                    else get_col df name"
  have IH: "get_col (impute_loop df' strategy cols) name = ?next df'" for df'
    using Cons.IH [OF d(2)] by simp
  show ?case
  proof (cases "get_col df col")
    case (Inl e)
    then have "impute_loop df strategy (col # cols) = impute_loop df strategy cols"
      by simp
    with IH [of df] Inl d(1) show ?thesis by auto
  next
    case (Inr c)
    show ?thesis
    proof (cases c)
      case (Numeric vs)
      let ?df1 = "set_col df col (Numeric (fillna (?stat vs) vs))"
      have run: "impute_loop df strategy (col # cols) = impute_loop ?df1 strategy cols"
        using ok Inr Numeric by auto
      have g: "get_col ?df1 name =
          (if name = col then Inr (Numeric (fillna (?stat vs) vs)) else get_col df name)"
        using Inr by (simp add: get_set_col)
      show ?thesis
      proof (cases "name = col")
        case True
        with d(1) IH [of ?df1] g run Inr Numeric show ?thesis by simp
      next
        case False
        with IH [of ?df1] g run show ?thesis by simp
      qed
    next
      case (Boolean bs)
      with Inr have "impute_loop df strategy (col # cols) = impute_loop df strategy cols"
        by simp
      with IH [of df] Inr Boolean d(1) show ?thesis by auto
    next
      case (Object ss)
      with Inr have "impute_loop df strategy (col # cols) = impute_loop df strategy cols"
        by simp
      with IH [of df] Inr Object d(1) show ?thesis by auto
    next
      case (Categorical cats ord ss)
      with Inr have "impute_loop df strategy (col # cols) = impute_loop df strategy cols"
        by simp
      with IH [of df] Inr Categorical d(1) show ?thesis by auto
    qed
  qed
qed

lemma impute_loop_names: "map fst (impute_loop df strategy cols) = map fst df"
  by (induction cols arbitrary: df)
     (auto simp: names_set_col split: sum.splits column.splits)

lemma impute_loop_wf:
  "wf_dataset df \<Longrightarrow>
   wf_dataset (impute_loop df strategy cols) \<and> nrows (impute_loop df strategy cols) = nrows df"
proof (induction cols arbitrary: df)
  case Nil
  then show ?case by simp
next
  case (Cons col cols)
  show ?case
  proof (cases "get_col df col")
    case (Inl e)
    with Cons show ?thesis by simp
  next
    case (Inr c)
    show ?thesis
    proof (cases c)
      case (Numeric vs)
      have len: "length vs = nrows df"
        using wf_get_col [OF Cons.prems Inr] Numeric by simp
      have "wf_dataset (set_col df col (Numeric (fillna v vs))) \<and>
            nrows (set_col df col (Numeric (fillna v vs))) = nrows df" for v
        using Cons.prems len by (simp add: wf_set_col nrows_set_col)
      with Cons.IH Cons.IH [OF Cons.prems] Inr Numeric show ?thesis by auto
    qed (use Cons Inr in simp_all)
  qed
qed

lemma median_present: "median (filter (\<lambda>v. \<not> isna v) vs) = median vs"
  by (simp add: median_def)

lemma mean_present: "mean (filter (\<lambda>v. \<not> isna v) vs) = mean vs"
  by (simp add: mean_def)

lemma fillna_all_missing:
  assumes "\<forall>x\<in>set vs. isna x"
  shows "fillna (median vs) vs = vs" "fillna (mean vs) vs = vs"
proof -
  have e: "filter (\<lambda>v. \<not> isna v) vs = []"
    using assms by (simp add: filter_empty_conv)
  have n: "map (\<lambda>x. if isna x then NaN else x) vs = vs"
    by (rule map_idI) (auto elim: isna.elims)
  show "fillna (median vs) vs = vs" "fillna (mean vs) vs = vs"
    using n by (simp_all add: fillna_def median_def mean_def e fsort_def)
qed

text \<open>
  Claim C7. On a well-formed frame and with strategy \<open>median\<close> or \<open>mean\<close>,
  \<open>impute_missing\<close> returns normally; in every numeric column each missing entry is
  replaced by the chosen statistic of the column's entries that are not missing, and
  the other entries stay; a numeric column that is entirely missing stays as it is;
  every column that is not numeric stays as it is; the column names and the number of
  rows do not change.
\<close>

theorem impute_missing_spec:
  assumes wf: "wf_dataset df" and ok: "strategy = ''median'' \<or> strategy = ''mean''"
  shows "\<exists>df'. impute_missing df strategy = Inr df' \<and>
    map fst df' = map fst df \<and> nrows df' = nrows df \<and> wf_dataset df' \<and>
    (\<forall>name vs. get_col df name = Inr (Numeric vs) \<longrightarrow>
       get_col df' name =
         Inr (Numeric (map (\<lambda>x. if isna x
                                 then (if strategy = ''median'' then median else mean)
                                        (filter (\<lambda>v. \<not> isna v) vs)
                                 else x) vs)) \<and>
       ((\<forall>x\<in>set vs. isna x) \<longrightarrow> get_col df' name = Inr (Numeric vs))) \<and>
    (\<forall>name c. get_col df name = Inr c \<and> \<not> is_number c \<longrightarrow> get_col df' name = Inr c)"
proof -
  let ?df' = "impute_loop df strategy (numeric_cols df)"
  let ?stat = "if strategy = ''median'' then median else mean"
  have d: "distinct (map fst df)" using wf by (rule wf_distinct)
  have get: "get_col ?df' name =
      (if name \<in> set (numeric_cols df) then map_sum (\<lambda>e. e) (impute_col ?stat) (get_col df name)
       else get_col df name)" for name
    using impute_loop_get [OF ok distinct_numeric_cols [OF d]] .
  have num: "get_col ?df' name = Inr (Numeric (fillna (?stat vs) vs))"
    if "get_col df name = Inr (Numeric vs)" for name vs
    using that get [of name] numeric_cols_iff [OF d, of name] by auto
  have stat: "?stat (filter (\<lambda>v. \<not> isna v) vs) = ?stat vs" for vs
    by (simp add: median_present mean_present)
  have "impute_missing df strategy = Inr ?df'"
    by (simp add: impute_missing_def)
  moreover have "map fst ?df' = map fst df"
    by (rule impute_loop_names)
  moreover have "nrows ?df' = nrows df" "wf_dataset ?df'"
    using impute_loop_wf [OF wf] by simp_all
  moreover have "get_col ?df' name =
         Inr (Numeric (map (\<lambda>x. if isna x then ?stat (filter (\<lambda>v. \<not> isna v) vs) else x) vs))"
    if "get_col df name = Inr (Numeric vs)" for name vs
    using num [OF that] unfolding stat by (simp add: fillna_def)
  moreover have "get_col ?df' name = Inr (Numeric vs)"
    if "get_col df name = Inr (Numeric vs)" "\<forall>x\<in>set vs. isna x" for name vs
    using num [OF that(1)] fillna_all_missing [OF that(2)] by (cases "strategy = ''median''") simp_all
  moreover have "get_col ?df' name = Inr c"
    if "get_col df name = Inr c \<and> \<not> is_number c" for name c
    using that get [of name] by (cases c) auto
  ultimately show ?thesis
    by (intro exI [of _ ?df']) blast
qed

lemma gappy_cols:
  "wf_dataset gappy_sessions"
  "get_col gappy_sessions ''administrative'' = Inr (Numeric [Fin 1, NaN, Fin 4, Fin 10])"
  "get_col gappy_sessions ''informational'' = Inr (Numeric [NaN, NaN, NaN, NaN])"
  "get_col gappy_sessions ''browser'' = Inr (Object [None, Some ''Safari'', None, None])"
  by (simp_all add: gappy_sessions_def wf_dataset_def nrows_def get_col_def)

theorem impute_missing_spec_witness:
  "wf_dataset gappy_sessions \<and>
   get_col gappy_sessions ''administrative'' = Inr (Numeric [Fin 1, NaN, Fin 4, Fin 10]) \<and>
   get_col gappy_sessions ''informational'' = Inr (Numeric [NaN, NaN, NaN, NaN]) \<and>
   get_col gappy_sessions ''browser'' = Inr (Object [None, Some ''Safari'', None, None]) \<and>
   (\<exists>df'. impute_missing gappy_sessions ''median'' = Inr df' \<and>
      get_col df' ''administrative'' = Inr (Numeric [Fin 1, Fin 4, Fin 4, Fin 10]) \<and>
      get_col df' ''informational'' = Inr (Numeric [NaN, NaN, NaN, NaN]) \<and>
      get_col df' ''browser'' = Inr (Object [None, Some ''Safari'', None, None]) \<and>
      nrows df' = nrows gappy_sessions) \<and>
   (\<exists>df'. impute_missing gappy_sessions ''mean'' = Inr df' \<and>
      get_col df' ''administrative'' = Inr (Numeric [Fin 1, Fin 5, Fin 4, Fin 10]))"
proof -
  have s1: "''median'' = ''median'' \<or> ''median'' = ''mean''" by simp
  have s2: "''mean'' = ''median'' \<or> ''mean'' = ''mean''" by simp
  from impute_missing_spec [OF gappy_cols(1) s1]
  obtain df' where m: "impute_missing gappy_sessions ''median'' = Inr df'"
    "nrows df' = nrows gappy_sessions"
    "\<forall>name vs. get_col gappy_sessions name = Inr (Numeric vs) \<longrightarrow>
       get_col df' name =
         Inr (Numeric (map (\<lambda>x. if isna x
                                 then (if ''median'' = ''median'' then median else mean)
                                        (filter (\<lambda>v. \<not> isna v) vs)
                                 else x) vs)) \<and>
       ((\<forall>x\<in>set vs. isna x) \<longrightarrow> get_col df' name = Inr (Numeric vs))"
    "\<forall>name c. get_col gappy_sessions name = Inr c \<and> \<not> is_number c \<longrightarrow> get_col df' name = Inr c"
    by blast
  from m(3) gappy_cols(2)
  have a: "get_col df' ''administrative'' = Inr (Numeric [Fin 1, Fin 4, Fin 4, Fin 10])"
    by (simp add: median_def fsort_def)
  from m(3) gappy_cols(3)
  have i: "get_col df' ''informational'' = Inr (Numeric [NaN, NaN, NaN, NaN])"
    by (simp add: median_def fsort_def)
  from m(4) gappy_cols(4)
  have b: "get_col df' ''browser'' = Inr (Object [None, Some ''Safari'', None, None])"
    by simp
  from impute_missing_spec [OF gappy_cols(1) s2]
  obtain df'' where n: "impute_missing gappy_sessions ''mean'' = Inr df''"
    "\<forall>name vs. get_col gappy_sessions name = Inr (Numeric vs) \<longrightarrow>
       get_col df'' name =
         Inr (Numeric (map (\<lambda>x. if isna x
                                 then (if ''mean'' = ''median'' then median else mean)
                                        (filter (\<lambda>v. \<not> isna v) vs)
                                 else x) vs)) \<and>
       ((\<forall>x\<in>set vs. isna x) \<longrightarrow> get_col df'' name = Inr (Numeric vs))"
    by blast
  from n(2) gappy_cols(2)
  have a': "get_col df'' ''administrative'' = Inr (Numeric [Fin 1, Fin 5, Fin 4, Fin 10])"
    by (simp add: mean_def fsum_def)
  from m(1,2) a i b n(1) a' gappy_cols show ?thesis
    by (intro conjI exI [of _ df'] exI [of _ df'']) assumption+
qed

text \<open>
  A strategy that is neither \<open>median\<close> nor \<open>mean\<close> is accepted: with \<open>mode\<close> the call
  on \<open>gappy_sessions\<close> returns normally, and the frame is what it was.
\<close>

theorem impute_missing_accepts_unknown_strategy:
  "impute_missing gappy_sessions ''mode'' = Inr gappy_sessions"
  by (simp add: impute_missing_def gappy_sessions_def numeric_cols_def get_col_def)

text \<open>
  Claim C6, amended. With a strategy that is neither \<open>median\<close> nor \<open>mean\<close>,
  \<open>impute_missing\<close> returns normally and leaves the frame unchanged.
\<close>

theorem impute_missing_unknown_strategy:
  "strategy \<noteq> ''median'' \<and> strategy \<noteq> ''mean'' \<longrightarrow> impute_missing df strategy = Inr df"
  by (simp add: impute_missing_def impute_loop_unknown)

theorem impute_missing_unknown_strategy_witness:
  "''mode'' \<noteq> ''median'' \<and> ''mode'' \<noteq> ''mean'' \<and>
   impute_missing gappy_sessions ''mode'' = Inr gappy_sessions"
  using impute_missing_unknown_strategy [of "''mode''" gappy_sessions] by simp

section \<open>Properties of the skew correction\<close>

lemma powr_three_halves: "0 \<le> x \<Longrightarrow> x powr (3 / 2) = x * sqrt x"
proof (cases "x = 0")
  case True
  then show ?thesis by simp
next
  case False
  assume "0 \<le> x"
  with False have pos: "0 < x" by simp
  have "x powr (3 / 2) = x powr (1 + 1 / 2)" by simp
  also have "\<dots> = x powr 1 * x powr (1 / 2)" by (rule powr_add)
  also have "\<dots> = x * sqrt x" using pos by (simp add: powr_half_sqrt)
  finally show ?thesis .
qed

lemmas skew_eval = skew_def fsum_def fsub_def zero_out_fperr_def flt_def fgt_def Let_def

lemma skew_symmetric: "skew (map Fin [1, 2, 3, 4, 5]) = Fin 0"
  by (simp add: skew_eval)

lemma skew_skewed: "skew (map Fin [1, 1, 1, 1, 1, 1, 1, 1, 1, 100]) = Fin (sqrt 10)"
proof -
  have "skew (map Fin [1, 1, 1, 1, 1, 1, 1, 1, 1, 100]) =
      Fin (26198073 / (10 * (88209 / 10) powr (3 / 2)))"
    by (simp add: skew_eval)
  moreover have "sqrt (88209 / 10) = 297 / sqrt 10"
  proof -
    have "sqrt 88209 = sqrt (297\<^sup>2)" by simp
    also have "\<dots> = 297" by (simp only: real_sqrt_abs)
    finally show ?thesis by (simp add: real_sqrt_divide)
  qed
  moreover have "sqrt 10 * sqrt 10 = 10" by simp
  ultimately show ?thesis
    by (simp add: powr_three_halves field_simps)
qed

lemma sqrt_10_gt: "1 / 2 < sqrt 10"
  by (rule real_less_rsqrt) (simp add: power2_eq_square)

lemma unskew_col_simps [simp]:
  "unskew_col t (Numeric vs) = (if fgt (fabs (skew vs)) t then Numeric (map log1p vs) else Numeric vs)"
  "unskew_col t (Boolean bs) = Boolean bs"
  "unskew_col t (Object ss) = Object ss"
  "unskew_col t (Categorical cats ord ss) = Categorical cats ord ss"
  by (simp_all add: unskew_col_def)

lemma fix_skew_loop_get:
  "distinct cols \<Longrightarrow>
    get_col (fix_skew_loop df threshold cols) name =
      (if name \<in> set cols then map_sum (\<lambda>e. e) (unskew_col threshold) (get_col df name)
       else get_col df name)"
proof (induction cols arbitrary: df)
  case Nil
  then show ?case by simp
next
  case (Cons col cols)
  then have d: "col \<notin> set cols" "distinct cols" by simp_all
  let ?next = "\<lambda>df. if name \<in> set cols then map_sum (\<lambda>e. e) (unskew_col threshold) (get_col df name)
                    else get_col df name"
  have IH: "get_col (fix_skew_loop df' threshold cols) name = ?next df'" for df'
    using Cons.IH [OF d(2)] by simp
  have same: ?case
    if "fix_skew_loop df threshold (col # cols) = fix_skew_loop df threshold cols"
      and "map_sum (\<lambda>e. e) (unskew_col threshold) (get_col df col) = get_col df col"
    using that IH [of df] d(1) by auto
  show ?case
  proof (cases "get_col df col")
    case (Inl e)
    then show ?thesis by (intro same) simp_all
  next
    case (Inr c)
    show ?thesis
    proof (cases c)
      case (Numeric vs)
      show ?thesis
      proof (cases "fgt (fabs (skew vs)) threshold")
        case True
        let ?df1 = "set_col df col (Numeric (map log1p vs))"
        have run: "fix_skew_loop df threshold (col # cols) = fix_skew_loop ?df1 threshold cols"
          using Inr Numeric True by simp
        have g: "get_col ?df1 name =
            (if name = col then Inr (Numeric (map log1p vs)) else get_col df name)"
          using Inr by (simp add: get_set_col)
        show ?thesis
        proof (cases "name = col")
          case eq: True
          with d(1) IH [of ?df1] g run Inr Numeric True show ?thesis by simp
        next
          case False
          with IH [of ?df1] g run show ?thesis by simp
        qed
      next
        case False
        with Inr Numeric show ?thesis by (intro same) simp_all
      qed
    next
      case (Boolean bs)
      with Inr show ?thesis by (intro same) simp_all
    next
      case (Object ss)
      with Inr show ?thesis by (intro same) simp_all
    next
      case (Categorical cats ord ss)
      with Inr show ?thesis by (intro same) simp_all
    qed
  qed
qed

lemma fix_skew_loop_names: "map fst (fix_skew_loop df threshold cols) = map fst df"
  by (induction cols arbitrary: df)
     (auto simp: names_set_col Let_def split: sum.splits column.splits)

lemma fix_skew_loop_wf:
  "wf_dataset df \<Longrightarrow>
   wf_dataset (fix_skew_loop df threshold cols) \<and>
   nrows (fix_skew_loop df threshold cols) = nrows df"
proof (induction cols arbitrary: df)
  case Nil
  then show ?case by simp
next
  case (Cons col cols)
  show ?case
  proof (cases "get_col df col")
    case (Inl e)
    with Cons show ?thesis by simp
  next
    case (Inr c)
    show ?thesis
    proof (cases c)
      case (Numeric vs)
      have len: "length vs = nrows df"
        using wf_get_col [OF Cons.prems Inr] Numeric by simp
      have "wf_dataset (set_col df col (Numeric (map log1p vs))) \<and>
            nrows (set_col df col (Numeric (map log1p vs))) = nrows df"
        using Cons.prems len by (simp add: wf_set_col nrows_set_col)
      with Cons.IH Cons.IH [OF Cons.prems] Inr Numeric show ?thesis by (auto simp: Let_def)
    qed (use Cons Inr in simp_all)
  qed
qed

lemma fix_skew_skewed:
  "fix_skew skewed_column (Fin (1 / 2)) =
     [(''x'', Numeric (map (\<lambda>x. Fin (ln (1 + x))) [1, 1, 1, 1, 1, 1, 1, 1, 1, 100]))]"
  using sqrt_10_gt
  by (simp add: fix_skew_def skewed_column_def numeric_cols_def get_col_def set_col_def
      skew_skewed [simplified] fgt_def flt_def)

lemma fix_skew_symmetric: "fix_skew symmetric_column (Fin (1 / 2)) = symmetric_column"
  by (simp add: fix_skew_def symmetric_column_def numeric_cols_def get_col_def
      skew_symmetric [simplified] fgt_def flt_def)

text \<open>
  Claim C2. On a well-formed frame, \<open>fix_skew\<close> keeps the column names and the number
  of rows; a numeric column whose skewness is, in absolute value, strictly above the
  threshold has every entry replaced by its \<open>log1p\<close>, which is \<open>ln (1 + x)\<close> for a
  finite \<open>x > -1\<close>, and any other numeric column stays as it is; a column that is not
  numeric stays as it is. With threshold \<open>0.5\<close> the column of nine ones and a hundred
  (skewness \<open>sqrt 10\<close>) is transformed entry by entry, and the column one to five
  (skewness 0) is unchanged.
\<close>

theorem fix_skew_spec:
  assumes wf: "wf_dataset df"
  shows "map fst (fix_skew df threshold) = map fst df \<and>
    nrows (fix_skew df threshold) = nrows df \<and>
    (\<forall>name vs. get_col df name = Inr (Numeric vs) \<longrightarrow>
       get_col (fix_skew df threshold) name =
         Inr (Numeric (if flt threshold (fabs (skew vs)) then map log1p vs else vs))) \<and>
    (\<forall>name c. get_col df name = Inr c \<and> \<not> is_number c \<longrightarrow>
       get_col (fix_skew df threshold) name = Inr c) \<and>
    (\<forall>x. - 1 < x \<longrightarrow> log1p (Fin x) = Fin (ln (1 + x))) \<and>
    fix_skew skewed_column (Fin (1 / 2)) =
      [(''x'', Numeric (map (\<lambda>x. Fin (ln (1 + x))) [1, 1, 1, 1, 1, 1, 1, 1, 1, 100]))] \<and>
    fix_skew symmetric_column (Fin (1 / 2)) = symmetric_column"
proof -
  have d: "distinct (map fst df)" using wf by (rule wf_distinct)
  have get: "get_col (fix_skew df threshold) name =
      (if name \<in> set (numeric_cols df)
       then map_sum (\<lambda>e. e) (unskew_col threshold) (get_col df name)
       else get_col df name)" for name
    unfolding fix_skew_def using distinct_numeric_cols [OF d] by (rule fix_skew_loop_get)
  have "get_col (fix_skew df threshold) name =
         Inr (Numeric (if flt threshold (fabs (skew vs)) then map log1p vs else vs))"
    if "get_col df name = Inr (Numeric vs)" for name vs
    using that get [of name] numeric_cols_iff [OF d, of name] by (auto simp: fgt_def)
  moreover have "get_col (fix_skew df threshold) name = Inr c"
    if "get_col df name = Inr c \<and> \<not> is_number c" for name c
    using that get [of name] by (cases c) auto
  moreover have "map fst (fix_skew df threshold) = map fst df"
    unfolding fix_skew_def by (rule fix_skew_loop_names)
  moreover have "nrows (fix_skew df threshold) = nrows df"
    unfolding fix_skew_def using fix_skew_loop_wf [OF wf] by simp
  moreover have "\<forall>x. - 1 < x \<longrightarrow> log1p (Fin x) = Fin (ln (1 + x))"
    by simp
  ultimately show ?thesis
    using fix_skew_skewed fix_skew_symmetric by blast
qed

lemma mixed_cols:
  "wf_dataset mixed_sessions"
  "get_col mixed_sessions ''product_related'' =
     Inr (Numeric (map Fin [1, 1, 1, 1, 1, 1, 1, 1, 1, 100]))"
  "get_col mixed_sessions ''exit_rates'' = Inr (Numeric (map Fin [1, 2, 3, 4, 5, 5, 4, 3, 2, 1]))"
  "get_col mixed_sessions ''weekend'' =
     Inr (Boolean [True, False, False, False, False, True, True, False, False, False])"
  by (simp_all add: mixed_sessions_def wf_dataset_def nrows_def get_col_def)

lemma skew_exit_rates: "skew (map Fin [1, 2, 3, 4, 5, 5, 4, 3, 2, 1]) = Fin 0"
  by (simp add: skew_eval)

theorem fix_skew_spec_witness:
  "wf_dataset mixed_sessions \<and>
   get_col mixed_sessions ''product_related'' =
     Inr (Numeric (map Fin [1, 1, 1, 1, 1, 1, 1, 1, 1, 100])) \<and>
   get_col mixed_sessions ''exit_rates'' = Inr (Numeric (map Fin [1, 2, 3, 4, 5, 5, 4, 3, 2, 1])) \<and>
   get_col mixed_sessions ''weekend'' =
     Inr (Boolean [True, False, False, False, False, True, True, False, False, False]) \<and>
   \<not> is_number (Boolean [True, False, False, False, False, True, True, False, False, False]) \<and>
   get_col (fix_skew mixed_sessions (Fin (1 / 2))) ''product_related'' =
     Inr (Numeric (map (\<lambda>x. Fin (ln (1 + x))) [1, 1, 1, 1, 1, 1, 1, 1, 1, 100])) \<and>
   get_col (fix_skew mixed_sessions (Fin (1 / 2))) ''exit_rates'' =
     Inr (Numeric (map Fin [1, 2, 3, 4, 5, 5, 4, 3, 2, 1])) \<and>
   get_col (fix_skew mixed_sessions (Fin (1 / 2))) ''weekend'' =
     Inr (Boolean [True, False, False, False, False, True, True, False, False, False]) \<and>
   nrows (fix_skew mixed_sessions (Fin (1 / 2))) = nrows mixed_sessions"
proof -
  note spec = fix_skew_spec [OF mixed_cols(1), of "Fin (1 / 2)"]
  from spec mixed_cols(2)
  have "get_col (fix_skew mixed_sessions (Fin (1 / 2))) ''product_related'' =
      Inr (Numeric (if flt (Fin (1 / 2)) (fabs (skew (map Fin [1, 1, 1, 1, 1, 1, 1, 1, 1, 100])))
                    then map log1p (map Fin [1, 1, 1, 1, 1, 1, 1, 1, 1, 100])
                    else map Fin [1, 1, 1, 1, 1, 1, 1, 1, 1, 100]))"
    by blast
  then have p: "get_col (fix_skew mixed_sessions (Fin (1 / 2))) ''product_related'' =
     Inr (Numeric (map (\<lambda>x. Fin (ln (1 + x))) [1, 1, 1, 1, 1, 1, 1, 1, 1, 100]))"
    using sqrt_10_gt by (simp add: skew_skewed [simplified] flt_def)
  from spec mixed_cols(3)
  have "get_col (fix_skew mixed_sessions (Fin (1 / 2))) ''exit_rates'' =
      Inr (Numeric (if flt (Fin (1 / 2)) (fabs (skew (map Fin [1, 2, 3, 4, 5, 5, 4, 3, 2, 1])))
                    then map log1p (map Fin [1, 2, 3, 4, 5, 5, 4, 3, 2, 1])
                    else map Fin [1, 2, 3, 4, 5, 5, 4, 3, 2, 1]))"
    by blast
  then have e: "get_col (fix_skew mixed_sessions (Fin (1 / 2))) ''exit_rates'' =
     Inr (Numeric (map Fin [1, 2, 3, 4, 5, 5, 4, 3, 2, 1]))"
    by (simp add: skew_exit_rates [simplified] flt_def)
  have nn: "\<not> is_number (Boolean [True, False, False, False, False, True, True, False, False, False])"
    by simp
  from spec mixed_cols(4) nn
  have w: "get_col (fix_skew mixed_sessions (Fin (1 / 2))) ''weekend'' =
     Inr (Boolean [True, False, False, False, False, True, True, False, False, False])"
    by blast
  from spec have n: "nrows (fix_skew mixed_sessions (Fin (1 / 2))) = nrows mixed_sessions"
    by blast
  from mixed_cols nn p e w n show ?thesis
    by (intro conjI)
qed

section \<open>Properties of the aggregates\<close>






text \<open>
  The restriction to a boolean \<open>weekend\<close> column matters: for a categorical key,
  \<open>observed=False\<close> yields one entry per category, with mean NaN for a category that
  does not occur.
\<close>

lemma categorical_weekend_expands:
  "snd (weekend_sales_analysis
     [(''weekend'', Categorical [''False'', ''True''] False [Some ''True'']),
      (''revenue'', Boolean [True])]) =
   Inr [(KStr ''False'', NaN), (KStr ''True'', Fin 1)]"
  by (simp add: weekend_sales_analysis_def grouped_def get_col_def groupby_agg_def
      group_values_def mean_def fsum_def)











end
